theory Spec2Isabelle
  imports Complex_Main
begin

section \<open>The vehicle model of selfdrive/controls/lib/vehicle\_model.py\<close>

text \<open>
  The source computes with Python floats (IEEE doubles). The embedding reads every
  float as a real number: sums, products and quotients are the exact ones, so
  rounding, infinities and NaN are outside the model. What Python raises on floats
  is inside it, as a value of the model: \<^verbatim>\<open>ZeroDivisionError\<close> for a division whose
  divisor is zero, and \<^verbatim>\<open>OverflowError\<close> for a power whose result is out of the
  range of doubles (the other operations overflow silently to an infinity).

  The two readings can differ in kind, not only in the last digits, where a divisor
  or a determinant is zero over the reals and the doubles round it away from zero, or
  the other way round. A decimal literal is an instance: \<^verbatim>\<open>2.7\<close> is the double
  nearest to \<open>27 / 10\<close>, and \<^verbatim>\<open>2.7 - 1.5\<close> is not the double \<^verbatim>\<open>1.2\<close>. For that reason
  every concrete input at which a theorem of this file states a raise is one where the
  doubles raise as well: the divisor is a parameter that is zero, or the numbers are
  dyadic and of moderate size, so that the double arithmetic of the source is exact
  on them.
\<close>

subsection \<open>Errors\<close>

datatype error = ZeroDivisionError | OverflowError | LinAlgError | ValueError

text \<open>Sequencing of computations that may raise: the first raise wins.\<close>

definition ebind :: "error + 'a \<Rightarrow> ('a \<Rightarrow> error + 'b) \<Rightarrow> error + 'b" where
  "ebind x f = (case x of Inl e \<Rightarrow> Inl e | Inr a \<Rightarrow> f a)"

text \<open>\<^verbatim>\<open>a / b\<close> on Python floats.\<close>

definition fdiv :: "real \<Rightarrow> real \<Rightarrow> error + real" where
  "fdiv a b = (if b = 0 then Inl ZeroDivisionError else Inr (a / b))"

text \<open>
  \<^verbatim>\<open>x ** 2\<close> on a Python float: \<^verbatim>\<open>float.__pow__\<close> raises \<^verbatim>\<open>OverflowError\<close> when the
  result is out of range. For a double \<open>x\<close> that is the case exactly when
  \<open>|x| \<ge> 2^512\<close>: the square of the largest double below \<open>2^512\<close> is still below the
  largest double.
\<close>

definition fsquare :: "real \<Rightarrow> error + real" where
  "fsquare x = (if 2 ^ 512 \<le> \<bar>x\<bar> then Inl OverflowError else Inr (x\<^sup>2))"

subsection \<open>Constants\<close>

definition ACCELERATION_DUE_TO_GRAVITY :: real where
  "ACCELERATION_DUE_TO_GRAVITY = 98 / 10"

definition SEGMENT_LENGTH_3DOF :: nat where
  "SEGMENT_LENGTH_3DOF = 5"

definition CURVATURE_CORR_ALPHA_3DOF :: real where
  "CURVATURE_CORR_ALPHA_3DOF = 5 / 10"

subsection \<open>Car parameters and the model object\<close>

text \<open>The fields of \<^verbatim>\<open>car.CarParams\<close> that the constructor reads.\<close>

record CarParams =
  mass :: real
  rotationalInertia :: real
  wheelbase :: real
  centerToFront :: real
  steerRatioRear :: real
  tireStiffnessFront :: real
  tireStiffnessRear :: real
  steerRatio :: real

text \<open>The attributes of a \<^verbatim>\<open>VehicleModel\<close> object.\<close>

record VehicleModel =
  m :: real
  j :: real
  l :: real
  aF :: real
  aR :: real
  chi :: real
  cF_orig :: real
  cR_orig :: real
  cF :: real
  cR :: real
  sR :: real

text \<open>
  \<^verbatim>\<open>update_params\<close> assigns three attributes of \<^verbatim>\<open>self\<close> and returns nothing;
  the model returns the updated object.
\<close>

definition update_params :: "real \<Rightarrow> real \<Rightarrow> VehicleModel \<Rightarrow> VehicleModel" where
  "update_params stiffness_factor steer_ratio self =
     self\<lparr> cF := stiffness_factor * cF_orig self,
           cR := stiffness_factor * cR_orig self,
           sR := steer_ratio \<rparr>"

text \<open>
  \<^verbatim>\<open>__init__\<close>: the attributes \<^verbatim>\<open>cF\<close>, \<^verbatim>\<open>cR\<close>, \<^verbatim>\<open>sR\<close> do not exist before the
  call of \<^verbatim>\<open>update_params\<close>, which assigns all three; the record needs some value
  there, and \<open>0\<close> stands for "not yet assigned".
\<close>

definition init :: "CarParams \<Rightarrow> VehicleModel" where
  "init CP =
     update_params 1 (steerRatio CP)
       \<lparr> m = mass CP,
         j = rotationalInertia CP,
         l = wheelbase CP,
         aF = centerToFront CP,
         aR = wheelbase CP - centerToFront CP,
         chi = steerRatioRear CP,
         cF_orig = tireStiffnessFront CP,
         cR_orig = tireStiffnessRear CP,
         cF = 0, cR = 0, sR = 0 \<rparr>"

text \<open>
  The states an object can be in: the one the constructor leaves, and any state
  reached from such a state by a call of \<^verbatim>\<open>update_params\<close>, the only method that
  assigns attributes.
\<close>

inductive reachable :: "CarParams \<Rightarrow> VehicleModel \<Rightarrow> bool" for CP :: CarParams where
  reach_init: "reachable CP (init CP)"
| reach_update: "reachable CP VM \<Longrightarrow> reachable CP (update_params stiffness_factor steer_ratio VM)"

subsection \<open>Steady-state solver\<close>

text \<open>
  \<^verbatim>\<open>kin_ss_sol\<close>: \<^verbatim>\<open>K[0,0] = VM.aR / VM.sR / VM.l * u\<close>,
  \<^verbatim>\<open>K[1,0] = 1. / VM.sR / VM.l * u\<close>, result \<^verbatim>\<open>K * sa\<close>. The 2x1 array is the
  pair of its entries.
\<close>

definition kin_ss_sol :: "real \<Rightarrow> real \<Rightarrow> VehicleModel \<Rightarrow> error + (real \<times> real)" where
  "kin_ss_sol sa u VM =
     ebind (fdiv (aR VM) (sR VM)) (\<lambda>q0.
     ebind (fdiv q0 (l VM)) (\<lambda>q1.
     ebind (fdiv 1 (sR VM)) (\<lambda>q2.
     ebind (fdiv q2 (l VM)) (\<lambda>q3.
       Inr ((q1 * u) * sa, (q3 * u) * sa)))))"

text \<open>A 2x2 array, by its entries \<open>[row, column]\<close>.\<close>

record mat22 =
  e00 :: real
  e01 :: real
  e10 :: real
  e11 :: real

text \<open>
  \<^verbatim>\<open>create_dyn_state_matrices\<close>: the entries in the order the source assigns them;
  \<^verbatim>\<open>B[1, 1]\<close> keeps the zero of \<^verbatim>\<open>np.zeros\<close>.
\<close>

definition create_dyn_state_matrices :: "real \<Rightarrow> VehicleModel \<Rightarrow> error + (mat22 \<times> mat22)" where
  "create_dyn_state_matrices u VM =
     ebind (fdiv (- (cF VM + cR VM)) (m VM * u)) (\<lambda>A00.
     ebind (fdiv (- (cF VM * aF VM - cR VM * aR VM)) (m VM * u)) (\<lambda>q01.
     ebind (fdiv (- (cF VM * aF VM - cR VM * aR VM)) (j VM * u)) (\<lambda>A10.
     ebind (fsquare (aF VM)) (\<lambda>aF2.
     ebind (fsquare (aR VM)) (\<lambda>aR2.
     ebind (fdiv (- (cF VM * aF2 + cR VM * aR2)) (j VM * u)) (\<lambda>A11.
     ebind (fdiv (cF VM + chi VM * cR VM) (m VM)) (\<lambda>p0.
     ebind (fdiv p0 (sR VM)) (\<lambda>B00.
     ebind (fdiv (cF VM * aF VM - chi VM * cR VM * aR VM) (j VM)) (\<lambda>p1.
     ebind (fdiv p1 (sR VM)) (\<lambda>B10.
       Inr (\<lparr> e00 = A00, e01 = q01 - u, e10 = A10, e11 = A11 \<rparr>,
            \<lparr> e00 = B00, e01 = - ACCELERATION_DUE_TO_GRAVITY, e10 = B10, e11 = 0 \<rparr>)))))))))))"

definition det22 :: "mat22 \<Rightarrow> real" where
  "det22 A = e00 A * e11 A - e01 A * e10 A"

text \<open>
  \<^verbatim>\<open>numpy.linalg.solve(A, B)\<close> is library code (LAPACK's LU factorisation in double
  precision), not code of the repository: the model takes it as a parameter
  \<open>np_solve\<close>, a function of the two 2x2 arrays that returns an array or raises.
\<close>

type_synonym linalg_solve = "mat22 \<Rightarrow> mat22 \<Rightarrow> error + mat22"

text \<open>
  \<^verbatim>\<open>dyn_ss_sol\<close>: \<^verbatim>\<open>-solve(A, B) @ inp\<close> with \<^verbatim>\<open>inp = [[sa], [roll]]\<close>; the unary
  minus applies to the solved matrix, the product with the column follows. A raise
  of \<^verbatim>\<open>solve\<close> is not caught.
\<close>

definition dyn_ss_sol ::
  "linalg_solve \<Rightarrow> real \<Rightarrow> real \<Rightarrow> real \<Rightarrow> VehicleModel \<Rightarrow> error + (real \<times> real)" where
  "dyn_ss_sol np_solve sa u roll VM =
     ebind (create_dyn_state_matrices u VM) (\<lambda>(A, B).
     ebind (np_solve A B) (\<lambda>X.
       Inr ((- e00 X) * sa + (- e01 X) * roll, (- e10 X) * sa + (- e11 X) * roll)))"

definition steady_state_sol ::
  "linalg_solve \<Rightarrow> VehicleModel \<Rightarrow> real \<Rightarrow> real \<Rightarrow> real \<Rightarrow> error + (real \<times> real)" where
  "steady_state_sol np_solve self sa u roll =
     (if u > 1 / 10 then dyn_ss_sol np_solve sa u roll self else kin_ss_sol sa u self)"


text \<open>
  One function that behaves so on every call: the exact solution over the reals, by
  the adjugate of \<open>A\<close>. It serves as the instance of \<open>np_solve\<close> at concrete inputs.
\<close>

definition exact_solve :: linalg_solve where
  "exact_solve A B =
     (if det22 A = 0 then Inl LinAlgError
      else Inr \<lparr> e00 = (e11 A * e00 B - e01 A * e10 B) / det22 A,
                 e01 = (e11 A * e01 B - e01 A * e11 B) / det22 A,
                 e10 = (e00 A * e10 B - e10 A * e00 B) / det22 A,
                 e11 = (e00 A * e11 B - e10 A * e01 B) / det22 A \<rparr>)"

subsection \<open>Curvature and yaw rate\<close>

definition calc_slip_factor :: "VehicleModel \<Rightarrow> error + real" where
  "calc_slip_factor VM =
     ebind (fsquare (l VM)) (\<lambda>l2.
       fdiv (m VM * (cF VM * aF VM - cR VM * aR VM)) (l2 * cF VM * cR VM))"

definition curvature_factor :: "VehicleModel \<Rightarrow> real \<Rightarrow> error + real" where
  "curvature_factor self u =
     ebind (calc_slip_factor self) (\<lambda>sf.
     ebind (fsquare u) (\<lambda>u2.
     ebind (fdiv (1 - chi self) (1 - sf * u2)) (\<lambda>q.
       fdiv q (l self))))"

text \<open>
  \<^verbatim>\<open>roll_compensation\<close>: in \<^verbatim>\<open>(g * roll) / ((1 / sf) - u**2)\<close> the quotient
  \<^verbatim>\<open>1 / sf\<close> is evaluated before the power, and the outer division last.
\<close>

definition roll_compensation :: "VehicleModel \<Rightarrow> real \<Rightarrow> real \<Rightarrow> error + real" where
  "roll_compensation self roll u =
     ebind (calc_slip_factor self) (\<lambda>sf.
       if \<bar>sf\<bar> < 1 / 10 ^ 6 then Inr 0
       else ebind (fdiv 1 sf) (\<lambda>q.
            ebind (fsquare u) (\<lambda>u2.
              fdiv (ACCELERATION_DUE_TO_GRAVITY * roll) (q - u2))))"

definition calc_curvature :: "VehicleModel \<Rightarrow> real \<Rightarrow> real \<Rightarrow> real \<Rightarrow> error + real" where
  "calc_curvature self sa u roll =
     ebind (curvature_factor self u) (\<lambda>cf.
     ebind (fdiv (cf * sa) (sR self)) (\<lambda>c.
     ebind (roll_compensation self roll u) (\<lambda>rc.
       Inr (c + rc))))"

definition get_steer_from_curvature :: "VehicleModel \<Rightarrow> real \<Rightarrow> real \<Rightarrow> real \<Rightarrow> error + real" where
  "get_steer_from_curvature self curv u roll =
     ebind (roll_compensation self roll u) (\<lambda>rc.
     ebind (curvature_factor self u) (\<lambda>cf.
       fdiv ((curv - rc) * sR self * 1) cf))"

definition get_steer_from_yaw_rate :: "VehicleModel \<Rightarrow> real \<Rightarrow> real \<Rightarrow> real \<Rightarrow> error + real" where
  "get_steer_from_yaw_rate self yaw_rate u roll =
     ebind (fdiv yaw_rate u) (\<lambda>curv. get_steer_from_curvature self curv u roll)"

subsection \<open>Curvature from the predicted path and the 3-DoF model\<close>

text \<open>
  The part of \<^verbatim>\<open>log.ModelDataV2\<close> that \<^verbatim>\<open>calc_curvature_3dof\<close> reads:
  \<^verbatim>\<open>modelV2.position.x\<close>, \<^verbatim>\<open>.y\<close> and \<^verbatim>\<open>.t\<close>, under the names of the locals that
  hold them.
\<close>

record ModelDataV2 =
  positions_x :: "real list"
  positions_y :: "real list"
  times :: "real list"

text \<open>
  \<^verbatim>\<open>range(i, stop, step)\<close> for non-negative bounds; Python refuses a zero step
  before the loop runs, and then there is nothing to iterate.
\<close>

function py_range :: "nat \<Rightarrow> nat \<Rightarrow> nat \<Rightarrow> nat list" where
  "py_range i stop step =
     (if step = 0 \<or> stop \<le> i then [] else i # py_range (i + step) stop step)"
  by pat_completeness auto
termination
  by (relation "measure (\<lambda>(i, stop, step). stop - i)") auto

declare py_range.simps [simp del]

text \<open>The slice \<^verbatim>\<open>xs[i:end_idx]\<close> for \<open>0 \<le> i\<close>: it is cut off at the end of the list.\<close>

definition py_slice :: "'a list \<Rightarrow> nat \<Rightarrow> nat \<Rightarrow> 'a list" where
  "py_slice xs i end_idx = take (end_idx - i) (drop i xs)"

text \<open>
  Lines 106 to 123 of the source compute, for one segment, the pair
  \<^verbatim>\<open>(curvature_baseline, curvature_3dof)\<close> with \<^verbatim>\<open>numpy.gradient\<close>,
  \<^verbatim>\<open>numpy.nanmean\<close> and IEEE arithmetic on arrays (NaN, infinities), which have no
  counterpart over the reals. The model takes that computation as a parameter
  \<open>seg\<close>: a function of everything those lines read (the three segment slices,
  \<^verbatim>\<open>a_y\<close>, \<^verbatim>\<open>a_x\<close>, \<^verbatim>\<open>yaw_rate\<close>, \<^verbatim>\<open>u_measured\<close>, \<^verbatim>\<open>sa\<close> and the model
  object) that returns the pair or raises.
\<close>

type_synonym segment_kernel =
  "real list \<Rightarrow> real list \<Rightarrow> real list \<Rightarrow> real \<Rightarrow> real \<Rightarrow> real \<Rightarrow> real \<Rightarrow> real \<Rightarrow> VehicleModel
     \<Rightarrow> error + (real \<times> real)"

text \<open>
  The first loop, over the start indices of \<^verbatim>\<open>range(0, range_end, 5)\<close>, with the two
  result lists as its state. A raise inside a segment leaves the function.
\<close>

fun segment_loop ::
  "segment_kernel \<Rightarrow> VehicleModel \<Rightarrow> ModelDataV2 \<Rightarrow> real \<Rightarrow> real \<Rightarrow> real \<Rightarrow> real \<Rightarrow> real
     \<Rightarrow> real list \<Rightarrow> real list \<Rightarrow> nat list \<Rightarrow> error + (real list \<times> real list)" where
  "segment_loop seg self modelV2 a_y a_x yaw_rate u_measured sa
       curvatures_baseline curvatures_3dof [] =
     Inr (curvatures_baseline, curvatures_3dof)"
| "segment_loop seg self modelV2 a_y a_x yaw_rate u_measured sa
       curvatures_baseline curvatures_3dof (i # is) =
     (let end_idx = i + SEGMENT_LENGTH_3DOF;
          x_segment = py_slice (positions_x modelV2) i end_idx;
          y_segment = py_slice (positions_y modelV2) i end_idx;
          t_segment = py_slice (times modelV2) i end_idx
      in ebind (seg x_segment y_segment t_segment a_y a_x yaw_rate u_measured sa self)
           (\<lambda>(curvature_baseline, curvature_3dof).
              segment_loop seg self modelV2 a_y a_x yaw_rate u_measured sa
                (curvatures_baseline @ [curvature_baseline])
                (curvatures_3dof @ [curvature_3dof]) is))"

text \<open>The second loop: \<^verbatim>\<open>cb + CURVATURE_CORR_ALPHA_3DOF * (cb - c3d)\<close> over the zip.\<close>

definition combine_curvatures :: "real list \<Rightarrow> real list \<Rightarrow> real list" where
  "combine_curvatures curvatures_baseline curvatures_3dof =
     map (\<lambda>(cb, c3d). cb + CURVATURE_CORR_ALPHA_3DOF * (cb - c3d))
       (zip curvatures_baseline curvatures_3dof)"

text \<open>
  The third loop, \<^verbatim>\<open>for i, curvature in enumerate(combined_curvatures)\<close>, with the
  index \<open>i\<close>, \<^verbatim>\<open>total_time\<close> and \<^verbatim>\<open>relevant_curvatures\<close> as its state. The
  \<^verbatim>\<open>break\<close> returns the list collected so far; \<^verbatim>\<open>len(times) - 1\<close> is an integer
  that is negative for an empty list.
\<close>

fun time_window_loop ::
  "real list \<Rightarrow> real \<Rightarrow> nat \<Rightarrow> real \<Rightarrow> real list \<Rightarrow> real list \<Rightarrow> real list" where
  "time_window_loop ts time_horizon i total_time relevant_curvatures [] = relevant_curvatures"
| "time_window_loop ts time_horizon i total_time relevant_curvatures (curvature # rest) =
     (if total_time \<ge> time_horizon then relevant_curvatures
      else if int i < int (length ts) - 1
        then time_window_loop ts time_horizon (i + 1)
               (total_time + (ts ! (i + 1) - ts ! i))
               (relevant_curvatures @ [curvature]) rest
        else time_window_loop ts time_horizon (i + 1) total_time relevant_curvatures rest)"

definition calc_curvature_3dof ::
  "segment_kernel \<Rightarrow> VehicleModel \<Rightarrow> ModelDataV2 \<Rightarrow> real \<Rightarrow> real \<Rightarrow> real \<Rightarrow> real \<Rightarrow> real \<Rightarrow> real
     \<Rightarrow> error + real" where
  "calc_curvature_3dof seg self modelV2 a_y a_x yaw_rate u_measured sa time_horizon =
     (if length (positions_x modelV2) < SEGMENT_LENGTH_3DOF
         \<or> length (positions_y modelV2) < SEGMENT_LENGTH_3DOF
      then Inr 0
      else
        let range_end = length (positions_x modelV2) - SEGMENT_LENGTH_3DOF
        in ebind (segment_loop seg self modelV2 a_y a_x yaw_rate u_measured sa [] []
                    (py_range 0 range_end SEGMENT_LENGTH_3DOF))
             (\<lambda>(curvatures_baseline, curvatures_3dof).
                let combined_curvatures = combine_curvatures curvatures_baseline curvatures_3dof;
                    relevant_curvatures =
                      time_window_loop (times modelV2) time_horizon 0 0 [] combined_curvatures
                in Inr (if relevant_curvatures \<noteq> []
                        then sum_list relevant_curvatures / real (length relevant_curvatures)
                        else 0)))"

text \<open>
  The running total of the third loop when it reaches index \<open>i\<close> with every earlier
  index inside \<^verbatim>\<open>times\<close>: the sum of \<^verbatim>\<open>times[k + 1] - times[k]\<close> over \<open>k < i\<close>.
\<close>

primrec total_time_before :: "real list \<Rightarrow> nat \<Rightarrow> real" where
  "total_time_before ts 0 = 0"
| "total_time_before ts (Suc i) = total_time_before ts i + (ts ! (Suc i) - ts ! i)"

text \<open>
  The method \<^verbatim>\<open>yaw_rate\<close> comes last: the methods above have a parameter of the
  same name.
\<close>

definition yaw_rate :: "VehicleModel \<Rightarrow> real \<Rightarrow> real \<Rightarrow> real \<Rightarrow> error + real" where
  "yaw_rate self sa u roll =
     ebind (calc_curvature self sa u roll) (\<lambda>c. Inr (c * u))"

subsection \<open>Concrete cars\<close>

text \<open>
  The car of the specification's concrete scenario, a variant whose centre of gravity
  is moved towards the front (understeer, negative slip factor), and an oversteering
  car with dyadic parameters: its slip factor is \<open>1\<close>, so its critical speed is
  \<open>u = 1\<close>, and the double arithmetic of the source is exact on it.
\<close>

definition example_car :: CarParams where
  "example_car =
     \<lparr> mass = 1500, rotationalInertia = 2500, wheelbase = 27 / 10, centerToFront = 135 / 100,
       steerRatioRear = 0, tireStiffnessFront = 80000, tireStiffnessRear = 80000,
       steerRatio = 15 \<rparr>"

definition front_heavy_car :: CarParams where
  "front_heavy_car = example_car\<lparr> centerToFront := 12 / 10 \<rparr>"

definition critical_car :: CarParams where
  "critical_car =
     \<lparr> mass = 2, rotationalInertia = 1, wheelbase = 1, centerToFront = 3 / 4,
       steerRatioRear = 0, tireStiffnessFront = 1, tireStiffnessRear = 1, steerRatio = 1 \<rparr>"

text \<open>A trajectory of exactly five samples and one of four.\<close>

definition five_samples :: ModelDataV2 where
  "five_samples =
     \<lparr> positions_x = [0, 1, 2, 3, 4], positions_y = [0, 0, 0, 0, 0], times = [0, 1, 2, 3, 4] \<rparr>"

definition four_samples :: ModelDataV2 where
  "four_samples =
     \<lparr> positions_x = [0, 1, 2, 3], positions_y = [0, 0, 0, 0, 0], times = [0, 1, 2, 3, 4] \<rparr>"

text \<open>A segment computation that raises on every segment it is given.\<close>

definition raising_kernel :: segment_kernel where
  "raising_kernel x_segment y_segment t_segment a_y a_x yr u_measured sa VM = Inl ValueError"

section \<open>Raising computations\<close>

lemmas car_simps = init_def update_params_def example_car_def front_heavy_car_def critical_car_def

lemma ebind_Inr [simp]: "ebind (Inr a) f = f a"
  by (simp add: ebind_def)

lemma ebind_Inl [simp]: "ebind (Inl e) f = Inl e"
  by (simp add: ebind_def)

lemma ebind_eq_Inr: "ebind x f = Inr b \<longleftrightarrow> (\<exists>a. x = Inr a \<and> f a = Inr b)"
  by (cases x) simp_all

lemma fdiv_eq_Inr: "fdiv a b = Inr c \<longleftrightarrow> b \<noteq> 0 \<and> c = a / b"
  by (auto simp: fdiv_def)

lemma fdiv_nonzero: "b \<noteq> 0 \<Longrightarrow> fdiv a b = Inr (a / b)"
  by (simp add: fdiv_def)

lemma fdiv_zero: "fdiv a 0 = Inl ZeroDivisionError"
  by (simp add: fdiv_def)

lemma fsquare_eq_Inr: "fsquare x = Inr y \<longleftrightarrow> \<bar>x\<bar> < 2 ^ 512 \<and> y = x\<^sup>2"
  by (auto simp: fsquare_def)

lemma fsquare_in_range: "\<bar>x\<bar> < 2 ^ 512 \<Longrightarrow> fsquare x = Inr (x\<^sup>2)"
  by (simp add: fsquare_def)

lemma fsquare_overflow: "2 ^ 512 \<le> \<bar>x\<bar> \<Longrightarrow> fsquare x = Inl OverflowError"
  by (simp add: fsquare_def)

section \<open>Parameter store\<close>

text \<open>
  C6. \<^verbatim>\<open>update_params(stiffness_factor, steer_ratio)\<close> sets
  \<open>cF = stiffness_factor * cF_orig\<close>, \<open>cR = stiffness_factor * cR_orig\<close> and
  \<open>sR = steer_ratio\<close> for arbitrary arguments (there is no check that could reject
  zero or negative ones), and every other attribute keeps its value.
\<close>

theorem update_params_frame:
  "cF (update_params stiffness_factor steer_ratio VM) = stiffness_factor * cF_orig VM
   \<and> cR (update_params stiffness_factor steer_ratio VM) = stiffness_factor * cR_orig VM
   \<and> sR (update_params stiffness_factor steer_ratio VM) = steer_ratio
   \<and> m (update_params stiffness_factor steer_ratio VM) = m VM
   \<and> j (update_params stiffness_factor steer_ratio VM) = j VM
   \<and> l (update_params stiffness_factor steer_ratio VM) = l VM
   \<and> aF (update_params stiffness_factor steer_ratio VM) = aF VM
   \<and> aR (update_params stiffness_factor steer_ratio VM) = aR VM
   \<and> chi (update_params stiffness_factor steer_ratio VM) = chi VM
   \<and> cF_orig (update_params stiffness_factor steer_ratio VM) = cF_orig VM
   \<and> cR_orig (update_params stiffness_factor steer_ratio VM) = cR_orig VM"
  by (simp add: update_params_def)

text \<open>
  C10. Every reachable state satisfies \<open>cF * cR_orig = cR * cF_orig\<close>. The
  constructor leaves \<open>cF = cF_orig\<close> and \<open>cR = cR_orig\<close>, and a call of
  \<^verbatim>\<open>update_params\<close> on a state with the invariant yields a state with it.
\<close>

theorem stiffness_invariant:
  "(cF (init CP) = cF_orig (init CP) \<and> cR (init CP) = cR_orig (init CP))
   \<and> (cF VM * cR_orig VM = cR VM * cF_orig VM \<longrightarrow>
        cF (update_params stiffness_factor steer_ratio VM)
          * cR_orig (update_params stiffness_factor steer_ratio VM)
        = cR (update_params stiffness_factor steer_ratio VM)
          * cF_orig (update_params stiffness_factor steer_ratio VM))
   \<and> (reachable CP VM \<longrightarrow> cF VM * cR_orig VM = cR VM * cF_orig VM)"
proof (intro conjI impI)
  show "cF (init CP) = cF_orig (init CP)"
    by (simp add: init_def update_params_def)
  show "cR (init CP) = cR_orig (init CP)"
    by (simp add: init_def update_params_def)
  show "cF (update_params stiffness_factor steer_ratio VM)
          * cR_orig (update_params stiffness_factor steer_ratio VM)
        = cR (update_params stiffness_factor steer_ratio VM)
          * cF_orig (update_params stiffness_factor steer_ratio VM)"
    by (simp add: update_params_def)
  assume "reachable CP VM"
  then show "cF VM * cR_orig VM = cR VM * cF_orig VM"
    by (induction rule: reachable.induct) (simp_all add: init_def update_params_def)
qed

theorem stiffness_invariant_witness:
  "reachable example_car (update_params 2 10 (init example_car))
   \<and> cF (update_params 2 10 (init example_car)) * cR_orig (update_params 2 10 (init example_car))
     = cR (update_params 2 10 (init example_car)) * cF_orig (update_params 2 10 (init example_car))"
proof -
  have r: "reachable example_car (update_params 2 10 (init example_car))"
    by (intro reach_update reach_init)
  with stiffness_invariant [of example_car "update_params 2 10 (init example_car)"]
  show ?thesis by blast
qed

section \<open>Steady-state solver\<close>

subsection \<open>Kinematic regime\<close>

lemma kin_ss_sol_value:
  "sR VM \<noteq> 0 \<Longrightarrow> l VM \<noteq> 0 \<Longrightarrow>
   kin_ss_sol sa u VM = Inr (aR VM / (sR VM * l VM) * u * sa, 1 / (sR VM * l VM) * u * sa)"
  by (simp add: kin_ss_sol_def fdiv_nonzero)

lemma kin_ss_sol_raises:
  "sR VM = 0 \<or> l VM = 0 \<Longrightarrow> kin_ss_sol sa u VM = Inl ZeroDivisionError"
  by (auto simp: kin_ss_sol_def fdiv_def)

text \<open>
  C5. For \<open>u \<le> 0.1\<close> the kinematic branch is taken: with \<open>sR\<close> and \<open>l\<close> nonzero
  (otherwise the quotient raises, see \<open>kin_ss_sol_raises\<close>) the result is
  \<open>v = (aR / (sR * l)) * u * sa\<close>, \<open>r = (1 / (sR * l)) * u * sa\<close>, and it is the same
  for every roll and for every pair of tire stiffnesses \<open>cF\<close>, \<open>cR\<close>.
\<close>

theorem steady_state_sol_kinematic:
  assumes "u \<le> 1 / 10" and "sR VM \<noteq> 0" and "l VM \<noteq> 0"
  shows "steady_state_sol np_solve VM sa u roll
           = Inr (aR VM / (sR VM * l VM) * u * sa, 1 / (sR VM * l VM) * u * sa)
         \<and> steady_state_sol np_solve (VM\<lparr> cF := c1, cR := c2 \<rparr>) sa u roll'
           = steady_state_sol np_solve VM sa u roll"
  using assms by (simp add: steady_state_sol_def kin_ss_sol_value)

theorem steady_state_sol_kinematic_witness:
  "(5 / 100 :: real) \<le> 1 / 10 \<and> sR (init example_car) \<noteq> 0 \<and> l (init example_car) \<noteq> 0
   \<and> steady_state_sol exact_solve (init example_car) 3 (5 / 100) 1 = Inr (1 / 200, 1 / 270)"
proof -
  have h: "(5 / 100 :: real) \<le> 1 / 10" "sR (init example_car) \<noteq> 0" "l (init example_car) \<noteq> 0"
    by (simp_all add: car_simps)
  from steady_state_sol_kinematic [OF h, where sa = 3 and roll = 1 and np_solve = exact_solve] h
  show ?thesis by (simp add: car_simps)
qed

text \<open>
  C9. At speed exactly zero, \<^verbatim>\<open>steady_state_sol(sa, 0, roll)\<close> is \<open>[0, 0]\<close> for every
  steering angle and every roll, on every model whose \<open>sR\<close> and \<open>l\<close> are nonzero; on
  the others the quotient by \<open>sR\<close> or \<open>l\<close> raises.
\<close>

theorem steady_state_sol_zero_speed:
  "(sR VM \<noteq> 0 \<and> l VM \<noteq> 0 \<longrightarrow> steady_state_sol np_solve VM sa 0 roll = Inr (0, 0))
   \<and> (sR VM = 0 \<or> l VM = 0 \<longrightarrow> steady_state_sol np_solve VM sa 0 roll = Inl ZeroDivisionError)"
  by (simp add: steady_state_sol_def kin_ss_sol_value kin_ss_sol_raises)

theorem steady_state_sol_zero_speed_witness:
  "sR (init example_car) \<noteq> 0 \<and> l (init example_car) \<noteq> 0
   \<and> steady_state_sol exact_solve (init example_car) 3 0 1 = Inr (0, 0)
   \<and> steady_state_sol exact_solve (update_params 1 0 (init example_car)) 3 0 1
     = Inl ZeroDivisionError"
proof -
  have h: "sR (init example_car) \<noteq> 0 \<and> l (init example_car) \<noteq> 0"
    by (simp add: car_simps)
  have z: "sR (update_params 1 0 (init example_car)) = 0"
    by (simp add: car_simps)
  from steady_state_sol_zero_speed [of "init example_car" exact_solve 3 1] h
       steady_state_sol_zero_speed [of "update_params 1 0 (init example_car)" exact_solve 3 1] z
  show ?thesis by blast
qed

subsection \<open>Dynamic regime\<close>


lemma create_dyn_state_matrices_raises:
  assumes "u = 0 \<or> m VM = 0 \<or> j VM = 0 \<or> sR VM = 0
           \<or> 2 ^ 512 \<le> \<bar>aF VM\<bar> \<or> 2 ^ 512 \<le> \<bar>aR VM\<bar>"
  shows "create_dyn_state_matrices u VM = Inl ZeroDivisionError
         \<or> create_dyn_state_matrices u VM = Inl OverflowError"
  using assms
  by (auto simp: create_dyn_state_matrices_def fdiv_def fsquare_def ebind_def split: sum.splits)








section \<open>Curvature and yaw rate\<close>

lemma calc_slip_factor_eq_Inr:
  "calc_slip_factor VM = Inr sf \<longleftrightarrow>
     \<bar>l VM\<bar> < 2 ^ 512 \<and> (l VM)\<^sup>2 * cF VM * cR VM \<noteq> 0
     \<and> sf = m VM * (cF VM * aF VM - cR VM * aR VM) / ((l VM)\<^sup>2 * cF VM * cR VM)"
  by (auto simp: calc_slip_factor_def ebind_eq_Inr fdiv_eq_Inr fsquare_eq_Inr)

lemma curvature_factor_eq_Inr:
  "curvature_factor VM u = Inr cf \<longleftrightarrow>
     (\<exists>sf. calc_slip_factor VM = Inr sf \<and> \<bar>u\<bar> < 2 ^ 512 \<and> 1 - sf * u\<^sup>2 \<noteq> 0 \<and> l VM \<noteq> 0
        \<and> cf = (1 - chi VM) / (1 - sf * u\<^sup>2) / l VM)"
  by (auto simp: curvature_factor_def ebind_eq_Inr fdiv_eq_Inr fsquare_eq_Inr)

lemma reciprocal_minus_nonzero:
  fixes sf w :: real
  assumes "sf \<noteq> 0" and "1 - sf * w \<noteq> 0"
  shows "1 / sf - w \<noteq> 0"
proof
  assume "1 / sf - w = 0"
  then have "sf * (1 / sf - w) = 0" by simp
  then have "1 - sf * w = 0" using assms(1) by (simp add: algebra_simps)
  with assms(2) show False by simp
qed

lemma roll_compensation_defined:
  assumes "calc_slip_factor VM = Inr sf" and "\<bar>u\<bar> < 2 ^ 512" and "1 - sf * u\<^sup>2 \<noteq> 0"
  shows "\<exists>rc. roll_compensation VM roll u = Inr rc"
proof (cases "\<bar>sf\<bar> < 1 / 10 ^ 6")
  case True
  with assms(1) show ?thesis by (simp add: roll_compensation_def)
next
  case False
  then have "sf \<noteq> 0" by auto
  from reciprocal_minus_nonzero [OF this assms(3)] False assms(1,2) \<open>sf \<noteq> 0\<close>
  show ?thesis by (simp add: roll_compensation_def fdiv_nonzero fsquare_in_range)
qed

text \<open>
  C3. Where \<^verbatim>\<open>curvature_factor(u)\<close> has a value and that value is not zero, and
  \<open>sR\<close> is not zero, \<^verbatim>\<open>get_steer_from_curvature(curv, u, roll)\<close> returns a steering
  angle, and \<^verbatim>\<open>calc_curvature\<close> of that angle at the same speed and roll returns
  \<open>curv\<close>.
\<close>

theorem get_steer_from_curvature_inverse:
  assumes "curvature_factor VM u = Inr cf" and "cf \<noteq> 0" and "sR VM \<noteq> 0"
  shows "\<exists>s. get_steer_from_curvature VM curv u roll = Inr s
             \<and> calc_curvature VM s u roll = Inr curv"
proof -
  from assms(1) obtain sf where sf: "calc_slip_factor VM = Inr sf"
    and range: "\<bar>u\<bar> < 2 ^ 512" and nz: "1 - sf * u\<^sup>2 \<noteq> 0"
    by (auto simp: curvature_factor_eq_Inr)
  from roll_compensation_defined [OF sf range nz]
  obtain rc where rc: "roll_compensation VM roll u = Inr rc" by blast
  define s where "s = (curv - rc) * sR VM * 1 / cf"
  have steer: "get_steer_from_curvature VM curv u roll = Inr s"
    using assms(2) by (simp add: get_steer_from_curvature_def rc assms(1) fdiv_nonzero s_def)
  have "cf * s / sR VM + rc = curv"
    using assms(2,3) by (simp add: s_def)
  then have "calc_curvature VM s u roll = Inr curv"
    using assms(3) by (simp add: calc_curvature_def rc assms(1) fdiv_nonzero)
  with steer show ?thesis by blast
qed

theorem get_steer_from_curvature_inverse_witness:
  "curvature_factor (init example_car) 20 = Inr (10 / 27) \<and> (10 / 27 :: real) \<noteq> 0
   \<and> sR (init example_car) \<noteq> 0
   \<and> get_steer_from_curvature (init example_car) (1 / 100) 20 0 = Inr (81 / 200)
   \<and> calc_curvature (init example_car) (81 / 200) 20 0 = Inr (1 / 100)"
proof -
  have sf: "calc_slip_factor (init example_car) = Inr 0"
    by (simp add: calc_slip_factor_def fdiv_def fsquare_def car_simps power2_eq_square)
  have h: "curvature_factor (init example_car) 20 = Inr (10 / 27)"
    by (simp add: curvature_factor_def sf fdiv_def fsquare_def) (simp add: car_simps)
  have nz: "(10 / 27 :: real) \<noteq> 0" by simp
  have s: "sR (init example_car) \<noteq> 0" by (simp add: car_simps)
  have st: "get_steer_from_curvature (init example_car) (1 / 100) 20 0 = Inr (81 / 200)"
    by (simp add: get_steer_from_curvature_def roll_compensation_def sf h fdiv_def) (simp add: car_simps)
  from get_steer_from_curvature_inverse [OF h nz s, of "1 / 100" 0]
  obtain a where a: "get_steer_from_curvature (init example_car) (1 / 100) 20 0 = Inr a"
    and rt: "calc_curvature (init example_car) a 20 0 = Inr (1 / 100)"
    by blast
  from a st have "a = 81 / 200" by simp
  with rt have "calc_curvature (init example_car) (81 / 200) 20 0 = Inr (1 / 100)"
    by simp
  with h nz s st show ?thesis by blast
qed

text \<open>
  C7. The claim is that for every roll and speed, with \<open>sf\<close> the slip factor
  \<open>m * (cF * aF - cR * aR) / (l^2 * cF * cR)\<close>, \<^verbatim>\<open>roll_compensation(roll, u)\<close> returns
  \<open>0\<close> when \<open>|sf| < 1e-6\<close> and otherwise \<open>(9.8 * roll) / ((1 / sf) - u^2)\<close>. The
  division is not guarded: on an oversteering car at its critical speed, where
  \<open>1 / sf = u^2\<close>, the function raises \<^verbatim>\<open>ZeroDivisionError\<close> and returns nothing, and
  at a speed whose square is out of range it raises \<^verbatim>\<open>OverflowError\<close>.
\<close>

theorem roll_compensation_raises_at_critical_speed:
  "calc_slip_factor (init critical_car) = Inr 1
   \<and> \<not> \<bar>1 :: real\<bar> < 1 / 10 ^ 6
   \<and> roll_compensation (init critical_car) 1 1 = Inl ZeroDivisionError
   \<and> roll_compensation (init critical_car) 1 (2 ^ 600) = Inl OverflowError"
proof -
  have sf: "calc_slip_factor (init critical_car) = Inr 1"
    by (simp add: calc_slip_factor_def fdiv_def fsquare_def car_simps)
  have z: "roll_compensation (init critical_car) 1 1 = Inl ZeroDivisionError"
    by (simp add: roll_compensation_def sf fdiv_def fsquare_def)
  have "(2 :: real) ^ 512 \<le> \<bar>2 ^ 600\<bar>"
    by simp
  then have "fsquare (2 ^ 600) = Inl OverflowError"
    by (rule fsquare_overflow)
  then have o: "roll_compensation (init critical_car) 1 (2 ^ 600) = Inl OverflowError"
    by (simp add: roll_compensation_def sf fdiv_def)
  from sf z o show ?thesis by simp
qed

text \<open>
  C7, as amended. On a model whose slip factor \<open>sf\<close> has a value, which is
  \<open>m * (cF * aF - cR * aR) / (l^2 * cF * cR)\<close>, and for every roll and speed:
  \<^verbatim>\<open>roll_compensation(roll, u)\<close> returns \<open>0\<close> when \<open>|sf| < 1e-6\<close>; otherwise, when
  the square of \<open>u\<close> is in range and \<open>(1 / sf) - u^2\<close> is not zero, it returns
  \<open>(9.8 * roll) / ((1 / sf) - u^2)\<close>.
\<close>

theorem roll_compensation_value:
  assumes "calc_slip_factor VM = Inr sf"
  shows "sf = m VM * (cF VM * aF VM - cR VM * aR VM) / ((l VM)\<^sup>2 * cF VM * cR VM)
         \<and> (\<bar>sf\<bar> < 1 / 10 ^ 6 \<longrightarrow> roll_compensation VM roll u = Inr 0)
         \<and> (\<not> \<bar>sf\<bar> < 1 / 10 ^ 6 \<and> \<bar>u\<bar> < 2 ^ 512 \<and> 1 / sf - u\<^sup>2 \<noteq> 0 \<longrightarrow>
              roll_compensation VM roll u = Inr (98 / 10 * roll / (1 / sf - u\<^sup>2)))"
proof (intro conjI impI)
  from assms show "sf = m VM * (cF VM * aF VM - cR VM * aR VM) / ((l VM)\<^sup>2 * cF VM * cR VM)"
    by (simp add: calc_slip_factor_eq_Inr)
next
  assume "\<bar>sf\<bar> < 1 / 10 ^ 6"
  with assms show "roll_compensation VM roll u = Inr 0"
    by (simp add: roll_compensation_def)
next
  assume a: "\<not> \<bar>sf\<bar> < 1 / 10 ^ 6 \<and> \<bar>u\<bar> < 2 ^ 512 \<and> 1 / sf - u\<^sup>2 \<noteq> 0"
  then have "sf \<noteq> 0" by auto
  with a assms show "roll_compensation VM roll u = Inr (98 / 10 * roll / (1 / sf - u\<^sup>2))"
    by (simp add: roll_compensation_def fdiv_nonzero fsquare_in_range
          ACCELERATION_DUE_TO_GRAVITY_def)
qed

theorem roll_compensation_value_witness:
  "calc_slip_factor (init front_heavy_car) = Inr (- 1 / 1296)
   \<and> \<not> \<bar>- 1 / 1296 :: real\<bar> < 1 / 10 ^ 6 \<and> \<bar>20 :: real\<bar> < 2 ^ 512
   \<and> 1 / (- 1 / 1296) - (20 :: real)\<^sup>2 \<noteq> 0
   \<and> roll_compensation (init front_heavy_car) (1 / 10) 20 = Inr (- 49 / 84800)
   \<and> calc_slip_factor (init example_car) = Inr 0
   \<and> roll_compensation (init example_car) (1 / 10) 20 = Inr 0"
proof -
  have h: "calc_slip_factor (init front_heavy_car) = Inr (- 1 / 1296)"
    by (simp add: calc_slip_factor_def fdiv_def fsquare_def car_simps power2_eq_square)
  have h0: "calc_slip_factor (init example_car) = Inr 0"
    by (simp add: calc_slip_factor_def fdiv_def fsquare_def car_simps power2_eq_square)
  have big: "\<not> \<bar>- 1 / 1296 :: real\<bar> < 1 / 10 ^ 6" and range: "\<bar>20 :: real\<bar> < 2 ^ 512"
    and nz: "1 / (- 1 / 1296) - (20 :: real)\<^sup>2 \<noteq> 0"
    by simp_all
  from roll_compensation_value [OF h, of "1 / 10" 20] big range nz
  have "roll_compensation (init front_heavy_car) (1 / 10) 20
        = Inr (98 / 10 * (1 / 10) / (1 / (- 1 / 1296) - 20\<^sup>2))"
    by blast
  then have v: "roll_compensation (init front_heavy_car) (1 / 10) 20 = Inr (- 49 / 84800)"
    by simp
  from roll_compensation_value [OF h0, of "1 / 10" 20]
  have v0: "roll_compensation (init example_car) (1 / 10) 20 = Inr 0"
    by simp
  from h big range nz v h0 v0 show ?thesis by blast
qed

section \<open>Curvature from the predicted path and the 3-DoF model\<close>

text \<open>
  C8. With fewer than five samples in \<^verbatim>\<open>x\<close> or in \<^verbatim>\<open>y\<close>,
  \<^verbatim>\<open>calc_curvature_3dof\<close> returns \<open>0.0\<close>: it does not raise, and the result is the same
  for every value of the measured inputs and for every segment computation, the one
  that always raises included.
\<close>

theorem calc_curvature_3dof_short:
  assumes "length (positions_x modelV2) < 5 \<or> length (positions_y modelV2) < 5"
  shows "calc_curvature_3dof seg VM modelV2 a_y a_x yr u_measured sa time_horizon = Inr 0"
  using assms by (auto simp: calc_curvature_3dof_def SEGMENT_LENGTH_3DOF_def)

theorem calc_curvature_3dof_short_witness:
  "length (positions_x four_samples) < 5
   \<and> calc_curvature_3dof raising_kernel (init example_car) four_samples 1 2 3 4 5 2 = Inr 0"
proof -
  have h: "length (positions_x four_samples) < 5"
    by (simp add: four_samples_def)
  then have "length (positions_x four_samples) < 5 \<or> length (positions_y four_samples) < 5"
    by (rule disjI1)
  from calc_curvature_3dof_short [OF this] h show ?thesis by blast
qed

subsection \<open>The segments\<close>

lemma length_py_range:
  "0 < step \<Longrightarrow> length (py_range i stop step) = (stop - i + step - 1) div step"
proof (induction i stop step rule: py_range.induct)
  case (1 i stop step)
  show ?case
  proof (cases "stop \<le> i")
    case True
    with "1.prems" show ?thesis
      by (simp add: py_range.simps [of i stop step])
  next
    case False
    with "1.prems" have IH:
      "length (py_range (i + step) stop step) = (stop - (i + step) + step - 1) div step"
      using "1.IH" by simp
    from False "1.prems" have unfold:
      "length (py_range i stop step) = Suc ((stop - (i + step) + step - 1) div step)"
      by (simp add: py_range.simps [of i stop step] IH)
    define q where "q = stop - (i + step) + step - 1"
    define p where "p = stop - i + step - 1"
    have step_up: "(q + step) div step = Suc (q div step)"
      using "1.prems" by simp
    show ?thesis
    proof (cases "i + step \<le> stop")
      case True
      with "1.prems" have "p = q + step"
        unfolding p_def q_def by arith
      with step_up have "p div step = Suc (q div step)" by simp
      with unfold show ?thesis unfolding p_def q_def by simp
    next
      case far: False
      with False "1.prems" have "q < step" and "step \<le> p" and "p < step + step"
        unfolding p_def q_def by arith+
      then obtain r where r: "p = r + step" and "r < step"
        by (metis add.commute le_add_diff_inverse less_diff_conv2)
      have "q div step = 0" using \<open>q < step\<close> by simp
      moreover have "p div step = Suc 0"
        using \<open>r < step\<close> "1.prems" unfolding r by simp
      ultimately show ?thesis using unfold unfolding p_def q_def by simp
    qed
  qed
qed

lemma segment_count:
  assumes "5 \<le> n"
  shows "length (py_range 0 (n - SEGMENT_LENGTH_3DOF) SEGMENT_LENGTH_3DOF) = (n - 1) div 5"
proof -
  have "length (py_range 0 (n - 5) 5) = (n - 5 - 0 + 5 - 1) div 5"
    by (rule length_py_range) simp
  also from assms have "n - 5 - 0 + 5 - 1 = n - 1" by arith
  finally show ?thesis by (simp add: SEGMENT_LENGTH_3DOF_def)
qed

text \<open>
  C1. The claim is that \<open>n \<ge> 5\<close> samples are cut into \<open>n div 5\<close> segments, one segment
  for five samples. The loop runs over \<^verbatim>\<open>range(0, n - 5, 5)\<close>, that is over
  \<open>(n - 1) div 5\<close> start indices (\<open>segment_count\<close>): for five samples there is no
  start index, no segment is computed (a segment computation that always raises is
  never called) and the result is the \<open>0.0\<close> of an empty list; for ten samples
  there is the one start index \<open>0\<close>.
\<close>

theorem five_samples_process_no_segment:
  "length (positions_x five_samples) = 5 \<and> length (positions_y five_samples) = 5
   \<and> length (times five_samples) = 5
   \<and> py_range 0 (5 - SEGMENT_LENGTH_3DOF) SEGMENT_LENGTH_3DOF = []
   \<and> calc_curvature_3dof raising_kernel (init example_car) five_samples 0 0 0 1 0 2 = Inr 0
   \<and> py_range 0 (10 - SEGMENT_LENGTH_3DOF) SEGMENT_LENGTH_3DOF = [0]"
proof -
  have a: "py_range 0 (5 - SEGMENT_LENGTH_3DOF) SEGMENT_LENGTH_3DOF = []"
    by (simp add: SEGMENT_LENGTH_3DOF_def py_range.simps)
  have "py_range 5 5 5 = []"
    by (simp add: py_range.simps)
  then have c: "py_range 0 (10 - SEGMENT_LENGTH_3DOF) SEGMENT_LENGTH_3DOF = [0]"
    by (simp add: SEGMENT_LENGTH_3DOF_def py_range.simps [of 0])
  have b: "calc_curvature_3dof raising_kernel (init example_car) five_samples 0 0 0 1 0 2 = Inr 0"
    using a
    by (simp add: calc_curvature_3dof_def Let_def SEGMENT_LENGTH_3DOF_def combine_curvatures_def
          five_samples_def)
  from a b c show ?thesis by (simp add: five_samples_def)
qed

subsection \<open>The time window\<close>

lemma segment_loop_lengths:
  "segment_loop seg self mdl a_y a_x yr u_measured sa bs ds idxs = Inr (bs', ds') \<Longrightarrow>
   length bs' = length bs + length idxs \<and> length ds' = length ds + length idxs"
proof (induction idxs arbitrary: bs ds)
  case Nil
  then show ?case by simp
next
  case (Cons i idxs)
  from Cons.prems obtain cb c3d where
    "segment_loop seg self mdl a_y a_x yr u_measured sa (bs @ [cb]) (ds @ [c3d]) idxs = Inr (bs', ds')"
    by (auto simp: Let_def ebind_eq_Inr)
  from Cons.IH [OF this] show ?case by simp
qed

text \<open>
  Inside \<^verbatim>\<open>calc_curvature_3dof\<close>, on a trajectory whose \<^verbatim>\<open>x\<close> and \<^verbatim>\<open>t\<close> have the
  same length, the list that the third loop walks is shorter than \<^verbatim>\<open>times\<close>, so the
  test \<^verbatim>\<open>i < len(times) - 1\<close> of that loop never fails.
\<close>

lemma combined_shorter_than_times:
  assumes "5 \<le> length (positions_x mdl)"
    and "length (times mdl) = length (positions_x mdl)"
    and "segment_loop seg self mdl a_y a_x yr u_measured sa [] []
           (py_range 0 (length (positions_x mdl) - SEGMENT_LENGTH_3DOF) SEGMENT_LENGTH_3DOF)
         = Inr (bs, ds)"
  shows "length (combine_curvatures bs ds) < length (times mdl)"
proof -
  from segment_loop_lengths [OF assms(3)] segment_count [OF assms(1)]
  have "length (combine_curvatures bs ds) = (length (positions_x mdl) - 1) div 5"
    by (simp add: combine_curvatures_def)
  also from assms(1) have "\<dots> < length (positions_x mdl)"
    by arith
  finally show ?thesis by (simp add: assms(2))
qed

lemma time_window_loop_prefix:
  "i + length cs < length ts \<Longrightarrow>
   \<exists>k\<le>length cs.
     time_window_loop ts h i tot rel cs = rel @ take k cs
     \<and> (\<forall>n<k. tot + (total_time_before ts (i + n) - total_time_before ts i) < h)
     \<and> (k < length cs \<longrightarrow> h \<le> tot + (total_time_before ts (i + k) - total_time_before ts i))"
proof (induction cs arbitrary: i tot rel)
  case Nil
  show ?case by simp
next
  case (Cons c cs)
  show ?case
  proof (cases "h \<le> tot")
    case True
    then have "time_window_loop ts h i tot rel (c # cs) = rel @ take 0 (c # cs)"
      by simp
    with True show ?thesis
      by (intro exI [of _ 0]) simp
  next
    case False
    from Cons.prems have guard: "int i < int (length ts) - 1" and next_ok: "Suc i + length cs < length ts"
      by simp_all
    define tot' where "tot' = tot + (ts ! (i + 1) - ts ! i)"
    from Cons.IH [OF next_ok, of tot' "rel @ [c]"]
    obtain k where k: "k \<le> length cs"
      and res: "time_window_loop ts h (Suc i) tot' (rel @ [c]) cs = (rel @ [c]) @ take k cs"
      and below: "\<forall>n<k. tot' + (total_time_before ts (Suc i + n) - total_time_before ts (Suc i)) < h"
      and above: "k < length cs \<longrightarrow> h \<le> tot' + (total_time_before ts (Suc i + k) - total_time_before ts (Suc i))"
      by blast
    have shift: "tot' + (total_time_before ts (Suc i + n) - total_time_before ts (Suc i))
                 = tot + (total_time_before ts (i + Suc n) - total_time_before ts i)" for n
      by (simp add: tot'_def)
    have r: "time_window_loop ts h i tot rel (c # cs) = rel @ take (Suc k) (c # cs)"
      using False guard res by (simp add: tot'_def)
    have b: "\<forall>n<Suc k. tot + (total_time_before ts (i + n) - total_time_before ts i) < h"
    proof (intro allI impI)
      fix n assume n: "n < Suc k"
      show "tot + (total_time_before ts (i + n) - total_time_before ts i) < h"
      proof (cases n)
        case 0
        with False show ?thesis by simp
      next
        case (Suc n')
        with n have "n' < k" by simp
        with below have "tot' + (total_time_before ts (Suc i + n') - total_time_before ts (Suc i)) < h"
          by blast
        then show ?thesis unfolding shift Suc .
      qed
    qed
    have a: "Suc k < length (c # cs) \<longrightarrow>
             h \<le> tot + (total_time_before ts (i + Suc k) - total_time_before ts i)"
      using above unfolding shift by simp
    from k r b a show ?thesis
      by (intro exI [of _ "Suc k"]) simp
  qed
qed

text \<open>
  C2. The third loop, on a list \<open>cs\<close> of corrected values shorter than \<^verbatim>\<open>times\<close>,
  collects the first \<open>k\<close> values of \<open>cs\<close> in order, where every one of them was
  reached with a running total below \<^verbatim>\<open>time_horizon\<close>, and the value at index \<open>k\<close>,
  if there is one, was reached with a running total at or above it. So the value
  whose own delta takes the total to the horizon or beyond (index \<open>k - 1\<close>) is
  collected, and the values from index \<open>k\<close> on, reached after the total has got
  there, are not.
\<close>

theorem time_window_collects_prefix:
  assumes "length cs < length ts"
  shows "\<exists>k\<le>length cs.
           time_window_loop ts time_horizon 0 0 [] cs = take k cs
           \<and> (\<forall>i<k. total_time_before ts i < time_horizon)
           \<and> (k < length cs \<longrightarrow> time_horizon \<le> total_time_before ts k)"
  using time_window_loop_prefix [of 0 cs ts time_horizon 0 "[]"] assms by simp

theorem time_window_collects_prefix_witness:
  "length [10, 20, 30, 40 :: real] < length [0, 1, 2, 3, 4, 5, 6 :: real]
   \<and> time_window_loop [0, 1, 2, 3, 4, 5, 6] 2 0 0 [] [10, 20, 30, 40] = [10, 20]
   \<and> total_time_before [0, 1, 2, 3, 4, 5, 6] 1 < 2
   \<and> 2 \<le> total_time_before [0, 1, 2, 3, 4, 5, 6] 2"
proof -
  have h: "length [10, 20, 30, 40 :: real] < length [0, 1, 2, 3, 4, 5, 6 :: real]"
    by simp
  from time_window_collects_prefix [OF h, of 2] h
  show ?thesis by (simp add: numeral_2_eq_2)
qed

end
